theory Spec2Isabelle
  imports Complex_Main
begin

section \<open>JavaScript values as the pages read them\<close>

text \<open>
  A property of a parsed JSON object is either missing (reading it gives
  \<^verbatim>\<open>undefined\<close>), \<^verbatim>\<open>null\<close>, or a value of the type the backend sends.
  Numbers that reach the pages come out of \<^verbatim>\<open>response.json()\<close>; they are finite,
  so a rational stands for each of them and \<^verbatim>\<open><\<close> is the order of the rationals.
\<close>

datatype 'a field = Absent | Null | Val 'a

text \<open>\<^verbatim>\<open>x ?? d\<close>: the default replaces only \<^verbatim>\<open>undefined\<close> and \<^verbatim>\<open>null\<close>.\<close>

fun nullish_or :: "'a field \<Rightarrow> 'a \<Rightarrow> 'a" where
  "nullish_or Absent d = d"
| "nullish_or Null d = d"
| "nullish_or (Val v) d = v"

text \<open>Truthiness of a boolean property.\<close>

fun truthy_bool :: "bool field \<Rightarrow> bool" where
  "truthy_bool (Val b) = b"
| "truthy_bool _ = False"

text \<open>\<^verbatim>\<open>x || d\<close> on a number property: every falsy value, \<^verbatim>\<open>0\<close> included, gives the default.\<close>

fun num_or :: "rat field \<Rightarrow> rat \<Rightarrow> rat" where
  "num_or (Val n) d = (if n \<noteq> 0 then n else d)"
| "num_or _ d = d"

section \<open>The payload of the query surface\<close>

text \<open>
  The fields of \<^verbatim>\<open>current\<close> that the Load and Grid pages read for their controls;
  all other fields of a reading are only printed.
\<close>

record reading =
  timestamp :: "string field"
  light_on :: "bool field"
  fan_on :: "bool field"
  pump_on :: "bool field"
  soc :: "rat field"
  online :: "bool field"
  mode :: "string field"

definition empty_reading :: reading where
  "empty_reading = \<lparr>timestamp = Absent, light_on = Absent, fan_on = Absent,
     pump_on = Absent, soc = Absent, online = Absent, mode = Absent\<rparr>"

text \<open>
  A response object of the query surface, with the properties the pages read:
  \<^verbatim>\<open>/api/load\<close>, \<^verbatim>\<open>/api/solar\<close>, \<^verbatim>\<open>/api/battery\<close> and \<^verbatim>\<open>/api/grid\<close> send
  \<^verbatim>\<open>current\<close> and \<^verbatim>\<open>history\<close>, \<^verbatim>\<open>/api/history\<close> sends \<^verbatim>\<open>data\<close>; a property an
  endpoint does not send is \<open>Absent\<close>.
\<close>

record payload =
  current :: "reading field"
  history :: "reading list field"
  data :: "reading list field"
  device_online :: "bool field"
  battery_soc :: "rat field"

text \<open>
  The state variable that holds the last payload starts as \<^verbatim>\<open>null\<close>:
  \<open>None\<close> here. \<^verbatim>\<open>data?.current || {}\<close> reads every property of the
  empty object as missing.
\<close>

definition current_of :: "payload option \<Rightarrow> reading" where
  "current_of ld = (case ld of None \<Rightarrow> empty_reading
     | Some p \<Rightarrow> (case current p of Val c \<Rightarrow> c | _ \<Rightarrow> empty_reading))"

text \<open>\<^verbatim>\<open>data?.device_online ?? false\<close>, as the Load, Solar, Battery and Grid pages write it.\<close>

definition online_or_false :: "payload option \<Rightarrow> bool" where
  "online_or_false ld = (case ld of None \<Rightarrow> False
     | Some p \<Rightarrow> nullish_or (device_online p) False)"

section \<open>The Load page\<close>

text \<open>
  One entry of the \<^verbatim>\<open>loads\<close> array. The icon and the per-load voltage, current
  and power are only displayed and are left out; \<^verbatim>\<open>id\<close> is \<open>load_id\<close>.
\<close>

record load =
  load_id :: string
  name :: string
  isOn :: "bool field"
  tier :: string
  tierLabel :: string
  description :: string
  locked :: bool

text \<open>
  The earlier Load page reads the state of charge from \<^verbatim>\<open>current.soc\<close>:
  \<^verbatim>\<open>locked: (current.soc || 100) < 20\<close>, and passes \<^verbatim>\<open>current.light_on\<close> on as it is.
\<close>

definition loads_soc :: "payload option \<Rightarrow> load list" where
  "loads_soc ld = (let current = current_of ld in
     [\<lparr>load_id = ''light'', name = ''Light'', isOn = light_on current,
        tier = ''essential'', tierLabel = ''Essential'',
        description = ''Indoor lighting system'', locked = False\<rparr>,
      \<lparr>load_id = ''fan'', name = ''Fan'', isOn = fan_on current,
        tier = ''semi-essential'', tierLabel = ''Semi-Essential'',
        description = ''Ventilation system'', locked = False\<rparr>,
      \<lparr>load_id = ''pump'', name = ''Pump'', isOn = pump_on current,
        tier = ''non-essential'', tierLabel = ''Non-Essential'',
        description = ''Water pumping system'',
        locked = (num_or (soc current) 100 < 20)\<rparr>])"

text \<open>
  The later Load page reads \<^verbatim>\<open>loadData?.battery_soc ?? 100\<close> and writes
  \<^verbatim>\<open>isOn: current.light_on || false\<close>.
\<close>

definition batterySoc :: "payload option \<Rightarrow> rat" where
  "batterySoc ld = (case ld of None \<Rightarrow> 100
     | Some p \<Rightarrow> nullish_or (battery_soc p) 100)"

definition loads_battery_soc :: "payload option \<Rightarrow> load list" where
  "loads_battery_soc ld = (let current = current_of ld in
     [\<lparr>load_id = ''light'', name = ''Light'', isOn = Val (truthy_bool (light_on current)),
        tier = ''essential'', tierLabel = ''Essential'',
        description = ''Indoor lighting system'', locked = False\<rparr>,
      \<lparr>load_id = ''fan'', name = ''Fan'', isOn = Val (truthy_bool (fan_on current)),
        tier = ''semi-essential'', tierLabel = ''Semi-Essential'',
        description = ''Ventilation system'', locked = False\<rparr>,
      \<lparr>load_id = ''pump'', name = ''Pump'', isOn = Val (truthy_bool (pump_on current)),
        tier = ''non-essential'', tierLabel = ''Non-Essential'',
        description = ''Water pumping system'',
        locked = (batterySoc ld < 20)\<rparr>])"

text \<open>The lock flag the page shows for the load with a given id.\<close>

definition lock_of :: "string \<Rightarrow> load list \<Rightarrow> bool option" where
  "lock_of i ls = map_option locked (find (\<lambda>l. load_id l = i) ls)"

section \<open>The API service\<close>

text \<open>
  What \<^verbatim>\<open>response.json()\<close> resolves to, and what reading a property of it gives.
\<close>

datatype jsval =
    Undefined
  | JNull
  | Bool bool
  | Num rat
  | Str string
  | Arr "jsval list"
  | Obj "(string \<times> jsval) list"

fun truthy :: "jsval \<Rightarrow> bool" where
  "truthy Undefined = False"
| "truthy JNull = False"
| "truthy (Bool b) = b"
| "truthy (Num n) = (n \<noteq> 0)"
| "truthy (Str s) = (s \<noteq> [])"
| "truthy (Arr xs) = True"
| "truthy (Obj kvs) = True"

definition js_or :: "jsval \<Rightarrow> jsval \<Rightarrow> jsval" where
  "js_or a b = (if truthy a then a else b)"

text \<open>
  A thrown value: the \<^verbatim>\<open>TypeError\<close> of a property read on \<^verbatim>\<open>null\<close> or of a failed
  \<^verbatim>\<open>fetch\<close>, the rejection of \<^verbatim>\<open>response.json()\<close> on a body that is not JSON,
  \<^verbatim>\<open>new Error(v)\<close>, whose message is \<open>v\<close> converted to a string, and the
  \<^verbatim>\<open>RangeError\<close> of formatting an invalid date.
\<close>

datatype exn = TypeError | JsonRejected | Error jsval | RangeError

text \<open>
  \<^verbatim>\<open>v.k\<close> for the keys \<^verbatim>\<open>detail\<close> and \<^verbatim>\<open>message\<close>, which no number, boolean,
  string or array has as a property of its own.
\<close>

fun get_prop :: "jsval \<Rightarrow> string \<Rightarrow> exn + jsval" where
  "get_prop Undefined k = Inl TypeError"
| "get_prop JNull k = Inl TypeError"
| "get_prop (Obj kvs) k = Inr (case map_of kvs k of None \<Rightarrow> Undefined | Some v \<Rightarrow> v)"
| "get_prop v k = Inr Undefined"

record response =
  ok :: bool
  statusText :: string
  body :: "jsval option"

datatype fetched = NetworkError | Response response

record request =
  url :: string
  method_of :: string
  headers :: "(string \<times> string) list"
  payload_of :: "jsval option"

text \<open>
  The environment of the service: the backend address, the token in local storage and
  the network, which answers a request with a response or fails.
\<close>

record env =
  API_URL :: string
  token :: "string option"
  fetch :: "request \<Rightarrow> fetched"

definition getAuthHeaders :: "env \<Rightarrow> (string \<times> string) list" where
  "getAuthHeaders e =
     (''Content-Type'', ''application/json'') #
     (case token e of None \<Rightarrow> []
      | Some t \<Rightarrow> if t \<noteq> [] then [(''Authorization'', ''Bearer '' @ t)] else [])"

text \<open>
  The message \<^verbatim>\<open>handleResponse\<close> throws for a response that is not ok: the body's
  \<^verbatim>\<open>detail\<close>, else its \<^verbatim>\<open>message\<close>, else \<^verbatim>\<open>'Request failed'\<close>; the status text
  (else the same default) when the body cannot be parsed or read.
\<close>

definition errorDetail :: "response \<Rightarrow> jsval" where
  "errorDetail r =
     (let fallback = (if statusText r \<noteq> [] then Str (statusText r) else Str ''Request failed'')
      in case body r of
           None \<Rightarrow> fallback
         | Some errorData \<Rightarrow>
             (case get_prop errorData ''detail'' of
                Inl e \<Rightarrow> fallback
              | Inr d \<Rightarrow>
                  (if truthy d then d
                   else case get_prop errorData ''message'' of
                          Inl e \<Rightarrow> fallback
                        | Inr m \<Rightarrow> js_or m (Str ''Request failed''))))"

definition handleResponse :: "response \<Rightarrow> exn + jsval" where
  "handleResponse r =
     (if \<not> ok r then Inl (Error (errorDetail r))
      else case body r of None \<Rightarrow> Inl JsonRejected | Some v \<Rightarrow> Inr v)"

definition controlLoad_request :: "env \<Rightarrow> string \<Rightarrow> bool \<Rightarrow> request" where
  "controlLoad_request e device state =
     \<lparr>url = API_URL e @ ''/api/load/control'', method_of = ''POST'',
      headers = getAuthHeaders e,
      payload_of = Some (Obj [(''device'', Str device), (''state'', Bool state)])\<rparr>"

definition controlLoad :: "env \<Rightarrow> string \<Rightarrow> bool \<Rightarrow> exn + jsval" where
  "controlLoad e device state =
     (case fetch e (controlLoad_request e device state) of
        NetworkError \<Rightarrow> Inl TypeError
      | Response r \<Rightarrow> handleResponse r)"

text \<open>
  The earlier service has no \<^verbatim>\<open>handleResponse\<close>; its \<^verbatim>\<open>controlLoad\<close> reads the
  error body outside any \<^verbatim>\<open>try\<close> and throws
  \<^verbatim>\<open>new Error(error.detail || 'Failed to control load')\<close>.
\<close>

definition controlLoad_inline :: "env \<Rightarrow> string \<Rightarrow> bool \<Rightarrow> exn + jsval" where
  "controlLoad_inline e device state =
     (case fetch e (controlLoad_request e device state) of
        NetworkError \<Rightarrow> Inl TypeError
      | Response r \<Rightarrow>
          (if \<not> ok r then
             (case body r of
                None \<Rightarrow> Inl JsonRejected
              | Some error \<Rightarrow>
                  (case get_prop error ''detail'' of
                     Inl e \<Rightarrow> Inl e
                   | Inr d \<Rightarrow> Inl (Error (js_or d (Str ''Failed to control load'')))))
           else case body r of None \<Rightarrow> Inl JsonRejected | Some v \<Rightarrow> Inr v))"

definition setGridMode_request :: "env \<Rightarrow> string \<Rightarrow> request" where
  "setGridMode_request e m =
     \<lparr>url = API_URL e @ ''/api/grid/mode?mode='' @ m, method_of = ''POST'',
      headers = getAuthHeaders e, payload_of = None\<rparr>"

definition setGridMode :: "env \<Rightarrow> string \<Rightarrow> exn + jsval" where
  "setGridMode e m =
     (case fetch e (setGridMode_request e m) of
        NetworkError \<Rightarrow> Inl TypeError
      | Response r \<Rightarrow> handleResponse r)"

section \<open>State, handlers and controls of the Load page\<close>

text \<open>
  The state variables of the component. \<^verbatim>\<open>controlling\<close> is an object from load ids
  to booleans, read as false where it has no entry. Only the later page has
  \<^verbatim>\<open>predictions\<close>; the earlier page never writes it.
\<close>

record load_state =
  loadData :: "payload option"
  predictions :: "jsval option"
  loading :: bool
  controlling :: "string \<Rightarrow> bool"

definition LoadPage_init :: load_state where
  "LoadPage_init = \<lparr>loadData = None, predictions = None, loading = True,
     controlling = (\<lambda>d. False)\<rparr>"





text \<open>
  What a handler does, in order: state updates, the control command it sends, toasts,
  and the refetch (\<^verbatim>\<open>fetchData\<close>, a read of the query surface). The toast texts are
  kept as their parts.
\<close>

datatype effect =
    SetControlling string bool
  | SetSettingMode bool
  | Send request
  | ToastSuccess string bool
  | ToastModeSet string
  | ToastError exn string
  | ToastModeError
  | FetchData

fun commands :: "effect list \<Rightarrow> request list" where
  "commands [] = []"
| "commands (Send r # es) = r # commands es"
| "commands (e # es) = commands es"

text \<open>
  \<^verbatim>\<open>handleToggle(device, currentState)\<close>: the command carries \<^verbatim>\<open>!currentState\<close>;
  a thrown error is caught and shown as an error toast. The service function is a
  parameter, as the two pages are built on the two services.
\<close>

definition handleToggle ::
  "(env \<Rightarrow> string \<Rightarrow> bool \<Rightarrow> exn + jsval) \<Rightarrow> env \<Rightarrow> string \<Rightarrow> bool field \<Rightarrow> effect list" where
  "handleToggle api_controlLoad e device currentState =
     (let state = \<not> truthy_bool currentState in
      [SetControlling device True, Send (controlLoad_request e device state)] @
      (case api_controlLoad e device state of
         Inr result \<Rightarrow> [ToastSuccess device state, FetchData]
       | Inl error \<Rightarrow> [ToastError error device]) @
      [SetControlling device False])"

definition LoadPage_deviceOnline :: "payload option \<Rightarrow> bool" where
  "LoadPage_deviceOnline ld = online_or_false ld"

text \<open>
  What a load's card shows in its corner: the lock icon for a locked load, else the
  switch with \<^verbatim>\<open>checked={load.isOn}\<close> and
  \<^verbatim>\<open>disabled={controlling[load.id] || !deviceOnline}\<close>.
\<close>

datatype control = LockIcon | Switch "bool field" bool

definition load_control :: "(string \<Rightarrow> bool) \<Rightarrow> bool \<Rightarrow> load \<Rightarrow> control" where
  "load_control ctl deviceOnline l =
     (if locked l then LockIcon
      else Switch (isOn l) (ctl (load_id l) \<or> \<not> deviceOnline))"

text \<open>
  The user's actions on the page. A click reaches a handler only through an element
  that is rendered and not disabled; while \<^verbatim>\<open>loading\<close> the page is a spinner.
\<close>

datatype load_action = ClickRefresh | ClickSwitch string

definition LoadPage_click ::
  "(payload option \<Rightarrow> load list) \<Rightarrow> (env \<Rightarrow> string \<Rightarrow> bool \<Rightarrow> exn + jsval) \<Rightarrow>
   env \<Rightarrow> load_state \<Rightarrow> load_action \<Rightarrow> effect list" where
  "LoadPage_click loads api_controlLoad e st a =
     (if loading st then []
      else case a of
        ClickRefresh \<Rightarrow> [FetchData]
      | ClickSwitch i \<Rightarrow>
          (case find (\<lambda>l. load_id l = i) (loads (loadData st)) of
             None \<Rightarrow> []
           | Some l \<Rightarrow>
               (case load_control (controlling st) (LoadPage_deviceOnline (loadData st)) l of
                  LockIcon \<Rightarrow> []
                | Switch checked disabled \<Rightarrow>
                    if disabled then []
                    else handleToggle api_controlLoad e (load_id l) (isOn l))))"

section \<open>The Grid page\<close>

record grid_state =
  gridData :: "payload option"
  gridLoading :: bool
  settingMode :: bool

definition GridPage_deviceOnline :: "payload option \<Rightarrow> bool" where
  "GridPage_deviceOnline gd = online_or_false gd"

definition modes :: "string list" where
  "modes = [''solar'', ''battery'', ''hybrid'']"

definition handleModeChange :: "env \<Rightarrow> string \<Rightarrow> effect list" where
  "handleModeChange e m =
     [SetSettingMode True, Send (setGridMode_request e m)] @
     (case setGridMode e m of
        Inr result \<Rightarrow> [ToastModeSet m, FetchData]
      | Inl error \<Rightarrow> [ToastModeError]) @
     [SetSettingMode False]"

datatype grid_action = ClickGridRefresh | ClickMode string

text \<open>Each mode button has \<^verbatim>\<open>disabled={settingMode || !deviceOnline}\<close>.\<close>

definition mode_disabled :: "grid_state \<Rightarrow> bool" where
  "mode_disabled st = (settingMode st \<or> \<not> GridPage_deviceOnline (gridData st))"

definition GridPage_click :: "env \<Rightarrow> grid_state \<Rightarrow> grid_action \<Rightarrow> effect list" where
  "GridPage_click e st a =
     (if gridLoading st then []
      else case a of
        ClickGridRefresh \<Rightarrow> [FetchData]
      | ClickMode m \<Rightarrow>
          (if m \<in> set modes then
             (if mode_disabled st then [] else handleModeChange e m)
           else []))"

section \<open>The derived online flag of the other pages\<close>




text \<open>
  The Charts page keeps the flag in a state variable that starts as \<^verbatim>\<open>true\<close>;
  its \<^verbatim>\<open>fetchData\<close> stores \<^verbatim>\<open>data.data || []\<close> and \<^verbatim>\<open>data.device_online ?? true\<close>.
  Reading \<^verbatim>\<open>data.data\<close> of a \<^verbatim>\<open>null\<close> response throws inside the \<^verbatim>\<open>try\<close> and is
  logged like a failed fetch.
\<close>

record charts_state =
  historyData :: "reading list"
  chartsLoading :: bool
  deviceOnline :: bool



section \<open>The chart series\<close>

text \<open>
  \<^verbatim>\<open>xs.slice(start)\<close>: a negative start counts from the end and is cut off at the
  first element; a start beyond the end gives the empty array.
\<close>

definition slice_from :: "int \<Rightarrow> 'a list \<Rightarrow> 'a list" where
  "slice_from start xs =
     (let len = int (length xs);
          k = (if start < 0 then max (len + start) 0 else min start len)
      in drop (nat k) xs)"

text \<open>
  A point of the series is the history item with a \<^verbatim>\<open>time\<close> label added. The label
  is \<^verbatim>\<open>format(parseISO(item.timestamp), 'HH:mm')\<close> of the date-fns library and the
  empty string for an item without a timestamp. The library is the parameter \<open>hhmm\<close>:
  \<open>hhmm ts\<close> is the label, or \<open>None\<close> for a string that \<^verbatim>\<open>parseISO\<close> turns into an
  invalid date, on which \<^verbatim>\<open>format\<close> throws a \<^verbatim>\<open>RangeError\<close>.
\<close>

record chart_point =
  item :: reading
  time :: string

fun time_label :: "(string \<Rightarrow> string option) \<Rightarrow> string field \<Rightarrow> exn + string" where
  "time_label hhmm (Val ts) =
     (if ts \<noteq> [] then (case hhmm ts of None \<Rightarrow> Inl RangeError | Some t \<Rightarrow> Inr t)
      else Inr [])"
| "time_label hhmm _ = Inr []"

definition chart_point_of ::
  "(string \<Rightarrow> string option) \<Rightarrow> reading \<Rightarrow> exn + chart_point" where
  "chart_point_of hhmm it =
     (case time_label hhmm (timestamp it) of
        Inl e \<Rightarrow> Inl e
      | Inr t \<Rightarrow> Inr \<lparr>item = it, time = t\<rparr>)"

text \<open>
  \<^verbatim>\<open>xs.map(f)\<close> with a callback that may throw: the items are visited in order and
  the first throw ends the call.
\<close>

fun map_throwing :: "('a \<Rightarrow> exn + 'b) \<Rightarrow> 'a list \<Rightarrow> exn + 'b list" where
  "map_throwing f [] = Inr []"
| "map_throwing f (x # xs) =
     (case f x of
        Inl e \<Rightarrow> Inl e
      | Inr y \<Rightarrow> (case map_throwing f xs of Inl e \<Rightarrow> Inl e | Inr ys \<Rightarrow> Inr (y # ys)))"

text \<open>
  \<^verbatim>\<open>data?.history?.map(...).slice(-50) || []\<close>, the same on the Load, Solar and
  Battery pages. The whole history is mapped before the last 50 points are taken.
\<close>

definition chartData ::
  "(string \<Rightarrow> string option) \<Rightarrow> payload option \<Rightarrow> exn + chart_point list" where
  "chartData hhmm ld =
     (case ld of
        None \<Rightarrow> Inr []
      | Some p \<Rightarrow>
          (case history p of
             Val h \<Rightarrow>
               (case map_throwing (chart_point_of hhmm) h of
                  Inl e \<Rightarrow> Inl e
                | Inr pts \<Rightarrow> Inr (slice_from (- 50) pts))
           | _ \<Rightarrow> Inr []))"

section \<open>The linear forecast\<close>

text \<open>
  Modelled from the spec: the Forecast Engine is backend code and is not among the
  sources. The spec's words: ordinary least squares over (elapsed seconds, power) pairs,
  projected to a later time, a negative projection clamped to 0; with no samples the
  forecast is zero. Elapsed time is counted from the first reading; the arithmetic is
  exact, on rationals. Where all readings share one time the slope is undefined and the
  forecast is \<open>None\<close>.
\<close>

definition ols_fit :: "(rat \<times> rat) list \<Rightarrow> (rat \<times> rat) option" where
  "ols_fit pts =
     (let n = of_nat (length pts);
          sx = sum_list (map fst pts);
          sy = sum_list (map snd pts);
          sxx = sum_list (map (\<lambda>(x, y). x * x) pts);
          sxy = sum_list (map (\<lambda>(x, y). x * y) pts);
          d = n * sxx - sx * sx
      in if d = 0 then None
         else (let slope = (n * sxy - sx * sy) / d
               in Some (slope, (sy - slope * sx) / n)))"

definition elapsed :: "(rat \<times> rat) list \<Rightarrow> (rat \<times> rat) list" where
  "elapsed hist = (case hist of [] \<Rightarrow> [] | (t0, p0) # rest \<Rightarrow> map (\<lambda>(t, p). (t - t0, p)) hist)"

definition projection :: "(rat \<times> rat) list \<Rightarrow> rat \<Rightarrow> rat option" where
  "projection hist t =
     (case hist of
        [] \<Rightarrow> Some 0
      | (t0, p0) # rest \<Rightarrow>
          (case ols_fit (elapsed hist) of
             None \<Rightarrow> None
           | Some (slope, intercept) \<Rightarrow> Some (intercept + slope * (t - t0))))"

definition linear_forecast :: "(rat \<times> rat) list \<Rightarrow> rat \<Rightarrow> rat option" where
  "linear_forecast hist t = map_option (max 0) (projection hist t)"

section \<open>Example inputs\<close>

text \<open>
  A response of \<^verbatim>\<open>/api/load\<close> from an online device that reports the state of charge
  \<open>s\<close> in both places the two Load pages read it from.
\<close>

definition load_response :: "rat \<Rightarrow> payload" where
  "load_response s =
     \<lparr>current = Val (empty_reading\<lparr>soc := Val s\<rparr>), history = Val [], data = Absent,
      device_online = Val True, battery_soc = Val s\<rparr>"

text \<open>A backend that refuses every request with status 403 and a reason.\<close>

definition refusing_backend :: "request \<Rightarrow> fetched" where
  "refusing_backend rq =
     Response \<lparr>ok = False, statusText = ''Forbidden'',
       body = Some (Obj [(''detail'', Str ''Pump locked: battery SOC below 20%'')])\<rparr>"

definition refusing_env :: env where
  "refusing_env = \<lparr>API_URL = ''http://backend'', token = Some ''t'', fetch = refusing_backend\<rparr>"

text \<open>A backend that gives one fixed response to every request.\<close>

definition answering_env :: "response \<Rightarrow> env" where
  "answering_env r =
     \<lparr>API_URL = ''http://backend'', token = Some ''t'', fetch = (\<lambda>rq. Response r)\<rparr>"

text \<open>
  The label on the timestamps of the examples. The string \<^verbatim>\<open>not-a-date\<close> is no ISO
  date: \<^verbatim>\<open>parseISO\<close> gives an invalid date for it. The other timestamps of the examples
  are written as date, \<^verbatim>\<open>T\<close>, hour, minute and second, and are labelled with their
  hour and minute.
\<close>

definition example_hhmm :: "string \<Rightarrow> string option" where
  "example_hhmm ts = (if ts = ''not-a-date'' then None else Some (take 5 (drop 11 ts)))"

definition reading_at :: "string \<Rightarrow> reading" where
  "reading_at ts = empty_reading\<lparr>timestamp := Val ts\<rparr>"

section \<open>Auxiliary facts\<close>

lemma find_load_id: "find (\<lambda>l. load_id l = i) ls = Some l \<Longrightarrow> load_id l = i"
  by (induction ls) (auto split: if_splits)

lemma lock_of_found:
  "lock_of i ls = Some b \<Longrightarrow> find (\<lambda>l. load_id l = i) ls = Some l \<Longrightarrow> locked l = b"
  by (simp add: lock_of_def)

lemma commands_append: "commands (xs @ ys) = commands xs @ commands ys"
  by (induction xs rule: commands.induct) simp_all

lemma commands_handleToggle:
  "commands (handleToggle api e device cs) =
     [controlLoad_request e device (\<not> truthy_bool cs)]"
  by (simp add: handleToggle_def Let_def commands_append split: sum.splits)

lemma commands_handleModeChange:
  "commands (handleModeChange e m) = [setGridMode_request e m]"
  by (simp add: handleModeChange_def commands_append split: sum.splits)

lemma controlLoad_request_device:
  "controlLoad_request e i s = controlLoad_request e j s' \<Longrightarrow> i = j"
  by (simp add: controlLoad_request_def)

lemma pump_lock_soc:
  "lock_of ''pump'' (loads_soc ld) = Some (num_or (soc (current_of ld)) 100 < 20)"
  by (simp add: lock_of_def loads_soc_def Let_def)

lemma pump_lock_battery_soc:
  "lock_of ''pump'' (loads_battery_soc ld) = Some (batterySoc ld < 20)"
  by (simp add: lock_of_def loads_battery_soc_def Let_def)

lemma locked_no_command:
  assumes "lock_of i (loads (loadData st)) = Some True"
  shows "controlLoad_request e i s \<notin> set (commands (LoadPage_click loads api e st a))"
proof (cases a)
  case ClickRefresh
  then show ?thesis by (simp add: LoadPage_click_def)
next
  case (ClickSwitch j)
  show ?thesis
  proof (cases "find (\<lambda>l. load_id l = j) (loads (loadData st))")
    case None
    with ClickSwitch show ?thesis by (simp add: LoadPage_click_def)
  next
    case (Some l)
    then have idl: "load_id l = j" by (rule find_load_id)
    show ?thesis
    proof (cases "j = i")
      case True
      with Some assms have "locked l" using lock_of_found by blast
      with Some ClickSwitch show ?thesis
        by (simp add: LoadPage_click_def load_control_def)
    next
      case False
      with Some ClickSwitch idl show ?thesis
        by (auto simp: LoadPage_click_def load_control_def commands_handleToggle
            dest: controlLoad_request_device)
    qed
  qed
qed

lemma locked_switch_click_does_nothing:
  assumes "lock_of i (loads (loadData st)) = Some True"
  shows "LoadPage_click loads api e st (ClickSwitch i) = []"
proof (cases "find (\<lambda>l. load_id l = i) (loads (loadData st))")
  case None
  then show ?thesis by (simp add: LoadPage_click_def)
next
  case (Some l)
  with assms have "locked l" using lock_of_found by blast
  with Some show ?thesis by (simp add: LoadPage_click_def load_control_def)
qed

lemma offline_no_command:
  assumes "\<not> LoadPage_deviceOnline (loadData st)"
  shows "commands (LoadPage_click loads api e st a) = []"
  using assms
  by (cases a) (auto simp: LoadPage_click_def load_control_def split: option.splits)

lemma grid_offline_no_command:
  assumes "\<not> GridPage_deviceOnline (gridData st)"
  shows "commands (GridPage_click e st a) = []"
  using assms by (cases a) (auto simp: GridPage_click_def mode_disabled_def)

text \<open>
  The controls are live otherwise: on an online device with a charged battery, a click on
  the pump's switch sends the command that turns the pump on.
\<close>

lemma online_unlocked_click_sends:
  "commands (LoadPage_click loads_battery_soc controlLoad refusing_env
      (LoadPage_init\<lparr>loadData := Some (load_response 80), loading := False\<rparr>)
      (ClickSwitch ''pump''))
   = [controlLoad_request refusing_env ''pump'' True]"
  by (simp add: LoadPage_click_def LoadPage_init_def loads_battery_soc_def Let_def
      load_control_def LoadPage_deviceOnline_def online_or_false_def load_response_def
      batterySoc_def current_of_def empty_reading_def commands_handleToggle)

lemma time_label_error: "time_label hhmm f = Inl e \<Longrightarrow> e = RangeError"
  by (cases f) (auto split: if_splits option.splits)

lemma chart_point_of_error: "chart_point_of hhmm it = Inl e \<Longrightarrow> e = RangeError"
  by (auto simp: chart_point_of_def split: sum.splits dest: time_label_error)

lemma map_throwing_ok:
  "\<forall>x \<in> set xs. \<exists>y. f x = Inr y \<Longrightarrow> map_throwing f xs = Inr (map (\<lambda>x. projr (f x)) xs)"
  by (induction xs) auto

lemma map_throwing_Inr:
  "map_throwing f xs = Inr ys \<Longrightarrow> x \<in> set xs \<Longrightarrow> \<exists>y. f x = Inr y"
  by (induction xs arbitrary: ys) (auto split: sum.splits)

lemma map_throwing_error:
  assumes "x \<in> set xs" and "f x = Inl e"
  shows "\<exists>e'. map_throwing f xs = Inl e'"
proof (cases "map_throwing f xs")
  case (Inl e')
  then show ?thesis by blast
next
  case (Inr ys)
  from Inr assms(1) have "\<exists>y. f x = Inr y" by (rule map_throwing_Inr)
  with assms(2) show ?thesis by simp
qed

lemma map_throwing_error_kind:
  "map_throwing f xs = Inl e \<Longrightarrow> \<exists>x \<in> set xs. f x = Inl e"
  by (induction xs) (auto split: sum.splits)

lemma slice_last_50: "slice_from (- 50) xs = drop (length xs - 50) xs"
  by (auto simp: slice_from_def Let_def max_def nat_diff_distrib')

section \<open>The interlock\<close>







text \<open>
  C3: for every payload, and so for every state of charge, the Essential load (the light)
  and the SemiEssential load (the fan) are not locked, on both Load pages; the pump is
  the only NonEssential load.
\<close>

theorem light_and_fan_never_locked:
  "lock_of ''light'' (loads_soc ld) = Some False
   \<and> lock_of ''fan'' (loads_soc ld) = Some False
   \<and> lock_of ''light'' (loads_battery_soc ld) = Some False
   \<and> lock_of ''fan'' (loads_battery_soc ld) = Some False
   \<and> map (\<lambda>l. (load_id l, tier l)) (loads_soc ld)
       = [(''light'', ''essential''), (''fan'', ''semi-essential''),
          (''pump'', ''non-essential'')]
   \<and> map (\<lambda>l. (load_id l, tier l)) (loads_battery_soc ld)
       = [(''light'', ''essential''), (''fan'', ''semi-essential''),
          (''pump'', ''non-essential'')]"
  by (simp add: lock_of_def loads_soc_def loads_battery_soc_def Let_def)

text \<open>
  C9, as the spec states it: the two Load pages show the same lock flag for the pump on
  every payload, a state of charge of 0 included. Evaluated at a payload that reports 0
  in both places: the page that reads \<^verbatim>\<open>current.soc || 100\<close> takes 100 and shows the
  pump not Locked, the page that reads \<^verbatim>\<open>battery_soc ?? 100\<close> shows it Locked.
\<close>

theorem pump_lock_flags_differ_at_zero:
  "lock_of ''pump'' (loads_soc (Some (load_response 0))) = Some False
   \<and> lock_of ''pump'' (loads_battery_soc (Some (load_response 0))) = Some True"
  by (simp add: pump_lock_soc pump_lock_battery_soc load_response_def current_of_def
      batterySoc_def)

section \<open>Controls and commands\<close>

text \<open>
  C4: while a load is locked (only the pump can be), the page shows the lock icon in
  place of its switch, so a click on its card reaches no handler, and no action of the
  user on the page sends a control command for that load, whatever state the command
  would ask for. This holds on both Load pages and for either service.
\<close>

theorem locked_load_sends_no_command:
  "(lock_of i (loads_soc (loadData st)) = Some True \<longrightarrow>
      LoadPage_click loads_soc api e st (ClickSwitch i) = []
      \<and> controlLoad_request e i s \<notin> set (commands (LoadPage_click loads_soc api e st a)))
   \<and> (lock_of i (loads_battery_soc (loadData st)) = Some True \<longrightarrow>
      LoadPage_click loads_battery_soc api e st (ClickSwitch i) = []
      \<and> controlLoad_request e i s
          \<notin> set (commands (LoadPage_click loads_battery_soc api e st a)))"
  using locked_no_command locked_switch_click_does_nothing by blast

theorem locked_load_sends_no_command_witness:
  "lock_of ''pump'' (loads_battery_soc
      (loadData (LoadPage_init\<lparr>loadData := Some (load_response 10), loading := False\<rparr>)))
     = Some True
   \<and> LoadPage_click loads_battery_soc controlLoad refusing_env
        (LoadPage_init\<lparr>loadData := Some (load_response 10), loading := False\<rparr>)
        (ClickSwitch ''pump'') = []
   \<and> controlLoad_request refusing_env ''pump'' True
        \<notin> set (commands (LoadPage_click loads_battery_soc controlLoad refusing_env
             (LoadPage_init\<lparr>loadData := Some (load_response 10), loading := False\<rparr>)
             (ClickSwitch ''light'')))"
proof -
  have h: "lock_of ''pump'' (loads_battery_soc
      (loadData (LoadPage_init\<lparr>loadData := Some (load_response 10), loading := False\<rparr>)))
     = Some True"
    by (simp add: pump_lock_battery_soc batterySoc_def load_response_def)
  from h locked_load_sends_no_command
    [of "''pump''" "LoadPage_init\<lparr>loadData := Some (load_response 10), loading := False\<rparr>"
        controlLoad refusing_env True "ClickSwitch ''pump''"]
  have 1: "LoadPage_click loads_battery_soc controlLoad refusing_env
        (LoadPage_init\<lparr>loadData := Some (load_response 10), loading := False\<rparr>)
        (ClickSwitch ''pump'') = []"
    by blast
  from h locked_load_sends_no_command
    [of "''pump''" "LoadPage_init\<lparr>loadData := Some (load_response 10), loading := False\<rparr>"
        controlLoad refusing_env True "ClickSwitch ''light''"]
  have 2: "controlLoad_request refusing_env ''pump'' True
        \<notin> set (commands (LoadPage_click loads_battery_soc controlLoad refusing_env
             (LoadPage_init\<lparr>loadData := Some (load_response 10), loading := False\<rparr>)
             (ClickSwitch ''light'')))"
    by blast
  from h 1 2 show ?thesis by blast
qed

text \<open>
  C10: while the derived \<^verbatim>\<open>deviceOnline\<close> flag is false, no action of the user sends a
  load-control or grid-mode command: every switch the Load page shows is disabled, every
  mode button of the Grid page is disabled, and a disabled element calls no handler.
\<close>

theorem offline_sends_no_command:
  "(\<not> LoadPage_deviceOnline (loadData st) \<longrightarrow>
      commands (LoadPage_click loads_soc api e st a) = []
      \<and> commands (LoadPage_click loads_battery_soc api e st a) = []
      \<and> load_control (controlling st) (LoadPage_deviceOnline (loadData st)) l
          \<noteq> Switch checked False)
   \<and> (\<not> GridPage_deviceOnline (gridData gst) \<longrightarrow>
      mode_disabled gst \<and> commands (GridPage_click e gst ga) = [])"
  using offline_no_command grid_offline_no_command
  by (auto simp: load_control_def mode_disabled_def)

theorem offline_sends_no_command_witness:
  "\<not> LoadPage_deviceOnline (loadData (LoadPage_init\<lparr>loading := False\<rparr>))
   \<and> commands (LoadPage_click loads_battery_soc controlLoad refusing_env
        (LoadPage_init\<lparr>loading := False\<rparr>) (ClickSwitch ''light'')) = []
   \<and> \<not> GridPage_deviceOnline
        (gridData \<lparr>gridData = None, gridLoading = False, settingMode = False\<rparr>)
   \<and> commands (GridPage_click refusing_env
        \<lparr>gridData = None, gridLoading = False, settingMode = False\<rparr> (ClickMode ''solar''))
       = []"
proof -
  have h: "\<not> LoadPage_deviceOnline (loadData (LoadPage_init\<lparr>loading := False\<rparr>))"
    by (simp add: LoadPage_deviceOnline_def online_or_false_def LoadPage_init_def)
  have g: "\<not> GridPage_deviceOnline
        (gridData \<lparr>gridData = None, gridLoading = False, settingMode = False\<rparr>)"
    by (simp add: GridPage_deviceOnline_def online_or_false_def)
  from h g offline_sends_no_command
    [of "LoadPage_init\<lparr>loading := False\<rparr>" controlLoad refusing_env "ClickSwitch ''light''"
        _ _ "\<lparr>gridData = None, gridLoading = False, settingMode = False\<rparr>" "ClickMode ''solar''"]
  show ?thesis by blast
qed

section \<open>Refused commands\<close>

text \<open>
  C5, as the spec states it: for every response to \<^verbatim>\<open>controlLoad\<close> that is not a
  success, the caller receives a structured rejection value, not a thrown error. The
  service does otherwise: on a backend that refuses the command with a reason,
  \<^verbatim>\<open>controlLoad\<close> throws an \<^verbatim>\<open>Error\<close> with that reason.
\<close>

theorem refusal_is_thrown_counterexample:
  "controlLoad refusing_env ''pump'' True
     = Inl (Error (Str ''Pump locked: battery SOC below 20%''))"
  by (simp add: controlLoad_def refusing_env_def refusing_backend_def handleResponse_def
      errorDetail_def Let_def)

text \<open>
  C5, amended: for every response to \<^verbatim>\<open>controlLoad\<close> that is not ok, the call throws
  and returns no value. With \<^verbatim>\<open>handleResponse\<close> it throws an \<^verbatim>\<open>Error\<close> that carries:
  for a body that is read as an object or a value other than \<^verbatim>\<open>null\<close>, its
  \<^verbatim>\<open>detail\<close> if that is truthy, else its \<^verbatim>\<open>message\<close> if that is truthy, else
  \<^verbatim>\<open>'Request failed'\<close>, whatever the status text; for a body that is not JSON or is
  \<^verbatim>\<open>null\<close>, the status text, or \<^verbatim>\<open>'Request failed'\<close> when the status text is empty.
  The earlier service throws an \<^verbatim>\<open>Error\<close> with the truthy \<^verbatim>\<open>detail\<close> or else
  \<^verbatim>\<open>'Failed to control load'\<close>, the rejection of \<^verbatim>\<open>json()\<close> for a body that is not
  JSON and a \<^verbatim>\<open>TypeError\<close> for a \<^verbatim>\<open>null\<close> body. On both services
  \<^verbatim>\<open>handleToggle\<close> catches what was thrown, shows it as an error toast and does not
  refetch.
\<close>

theorem non_success_is_thrown:
  "fetch e (controlLoad_request e device state) = Response r \<and> \<not> ok r \<longrightarrow>
     (body r = None \<longrightarrow>
        controlLoad e device state
          = Inl (Error (if statusText r \<noteq> [] then Str (statusText r)
                        else Str ''Request failed''))
        \<and> controlLoad_inline e device state = Inl JsonRejected)
     \<and> (body r = Some b \<and> (b = JNull \<or> b = Undefined) \<longrightarrow>
        controlLoad e device state
          = Inl (Error (if statusText r \<noteq> [] then Str (statusText r)
                        else Str ''Request failed''))
        \<and> controlLoad_inline e device state = Inl TypeError)
     \<and> (body r = Some b \<and> get_prop b ''detail'' = Inr d \<and> get_prop b ''message'' = Inr m \<longrightarrow>
        controlLoad e device state
          = Inl (Error (if truthy d then d else if truthy m then m
                        else Str ''Request failed''))
        \<and> controlLoad_inline e device state
          = Inl (Error (if truthy d then d else Str ''Failed to control load'')))
     \<and> (\<forall>v. controlLoad e device state \<noteq> Inr v \<and> controlLoad_inline e device state \<noteq> Inr v)
     \<and> (state = (\<not> truthy_bool currentState) \<longrightarrow>
          (\<exists>x. controlLoad e device state = Inl x
             \<and> handleToggle controlLoad e device currentState
               = [SetControlling device True, Send (controlLoad_request e device state),
                  ToastError x device, SetControlling device False])
          \<and> (\<exists>x. controlLoad_inline e device state = Inl x
             \<and> handleToggle controlLoad_inline e device currentState
               = [SetControlling device True, Send (controlLoad_request e device state),
                  ToastError x device, SetControlling device False]))"
proof (intro impI)
  assume a: "fetch e (controlLoad_request e device state) = Response r \<and> \<not> ok r"
  then have c: "controlLoad e device state = Inl (Error (errorDetail r))"
    by (simp add: controlLoad_def handleResponse_def)
  from a have "\<exists>y. controlLoad_inline e device state = Inl y"
    by (simp add: controlLoad_inline_def split: option.splits sum.splits)
  then obtain y where i: "controlLoad_inline e device state = Inl y" ..
  have 1: "body r = None \<longrightarrow>
        controlLoad e device state
          = Inl (Error (if statusText r \<noteq> [] then Str (statusText r)
                        else Str ''Request failed''))
        \<and> controlLoad_inline e device state = Inl JsonRejected"
    using a c by (simp add: errorDetail_def Let_def controlLoad_inline_def)
  have 2: "body r = Some b \<and> (b = JNull \<or> b = Undefined) \<longrightarrow>
        controlLoad e device state
          = Inl (Error (if statusText r \<noteq> [] then Str (statusText r)
                        else Str ''Request failed''))
        \<and> controlLoad_inline e device state = Inl TypeError"
    using a c by (auto simp: errorDetail_def Let_def controlLoad_inline_def)
  have 3: "body r = Some b \<and> get_prop b ''detail'' = Inr d \<and> get_prop b ''message'' = Inr m \<longrightarrow>
        controlLoad e device state
          = Inl (Error (if truthy d then d else if truthy m then m
                        else Str ''Request failed''))
        \<and> controlLoad_inline e device state
          = Inl (Error (if truthy d then d else Str ''Failed to control load''))"
    using a c by (auto simp: errorDetail_def Let_def controlLoad_inline_def js_or_def)
  have 4: "\<forall>v. controlLoad e device state \<noteq> Inr v \<and> controlLoad_inline e device state \<noteq> Inr v"
    using c i by simp
  have 5: "state = (\<not> truthy_bool currentState) \<longrightarrow>
          (\<exists>x. controlLoad e device state = Inl x
             \<and> handleToggle controlLoad e device currentState
               = [SetControlling device True, Send (controlLoad_request e device state),
                  ToastError x device, SetControlling device False])
          \<and> (\<exists>x. controlLoad_inline e device state = Inl x
             \<and> handleToggle controlLoad_inline e device currentState
               = [SetControlling device True, Send (controlLoad_request e device state),
                  ToastError x device, SetControlling device False])"
    using c i by (auto simp: handleToggle_def Let_def)
  show "(body r = None \<longrightarrow>
        controlLoad e device state
          = Inl (Error (if statusText r \<noteq> [] then Str (statusText r)
                        else Str ''Request failed''))
        \<and> controlLoad_inline e device state = Inl JsonRejected)
     \<and> (body r = Some b \<and> (b = JNull \<or> b = Undefined) \<longrightarrow>
        controlLoad e device state
          = Inl (Error (if statusText r \<noteq> [] then Str (statusText r)
                        else Str ''Request failed''))
        \<and> controlLoad_inline e device state = Inl TypeError)
     \<and> (body r = Some b \<and> get_prop b ''detail'' = Inr d \<and> get_prop b ''message'' = Inr m \<longrightarrow>
        controlLoad e device state
          = Inl (Error (if truthy d then d else if truthy m then m
                        else Str ''Request failed''))
        \<and> controlLoad_inline e device state
          = Inl (Error (if truthy d then d else Str ''Failed to control load'')))
     \<and> (\<forall>v. controlLoad e device state \<noteq> Inr v \<and> controlLoad_inline e device state \<noteq> Inr v)
     \<and> (state = (\<not> truthy_bool currentState) \<longrightarrow>
          (\<exists>x. controlLoad e device state = Inl x
             \<and> handleToggle controlLoad e device currentState
               = [SetControlling device True, Send (controlLoad_request e device state),
                  ToastError x device, SetControlling device False])
          \<and> (\<exists>x. controlLoad_inline e device state = Inl x
             \<and> handleToggle controlLoad_inline e device currentState
               = [SetControlling device True, Send (controlLoad_request e device state),
                  ToastError x device, SetControlling device False]))"
    by (rule conjI [OF 1 conjI [OF 2 conjI [OF 3 conjI [OF 4 5]]]])
qed

theorem non_success_is_thrown_witness:
  "controlLoad (answering_env \<lparr>ok = False, statusText = ''Bad Gateway'', body = None\<rparr>)
      ''pump'' True = Inl (Error (Str ''Bad Gateway''))
   \<and> controlLoad (answering_env \<lparr>ok = False, statusText = [], body = Some JNull\<rparr>)
      ''pump'' True = Inl (Error (Str ''Request failed''))
   \<and> controlLoad (answering_env \<lparr>ok = False, statusText = ''Forbidden'', body = Some (Obj [])\<rparr>)
      ''pump'' True = Inl (Error (Str ''Request failed''))
   \<and> handleToggle controlLoad refusing_env ''pump'' (Val False)
     = [SetControlling ''pump'' True, Send (controlLoad_request refusing_env ''pump'' True),
        ToastError (Error (Str ''Pump locked: battery SOC below 20%'')) ''pump'',
        SetControlling ''pump'' False]
   \<and> handleToggle controlLoad_inline refusing_env ''pump'' (Val False)
     = [SetControlling ''pump'' True, Send (controlLoad_request refusing_env ''pump'' True),
        ToastError (Error (Str ''Pump locked: battery SOC below 20%'')) ''pump'',
        SetControlling ''pump'' False]"
proof -
  let ?r1 = "\<lparr>ok = False, statusText = ''Bad Gateway'', body = None\<rparr>"
  let ?r2 = "\<lparr>ok = False, statusText = [], body = Some JNull\<rparr>"
  let ?r3 = "\<lparr>ok = False, statusText = ''Forbidden'', body = Some (Obj [])\<rparr>"
  let ?r4 = "\<lparr>ok = False, statusText = ''Forbidden'',
         body = Some (Obj [(''detail'', Str ''Pump locked: battery SOC below 20%'')])\<rparr>"
  have h: "\<And>r :: response. \<not> ok r \<Longrightarrow>
      fetch (answering_env r) (controlLoad_request (answering_env r) ''pump'' True) = Response r
      \<and> \<not> ok r"
    by (simp add: answering_env_def)
  have h1: "fetch (answering_env ?r1) (controlLoad_request (answering_env ?r1) ''pump'' True)
      = Response ?r1 \<and> \<not> ok ?r1" by (rule h) simp
  have h2: "fetch (answering_env ?r2) (controlLoad_request (answering_env ?r2) ''pump'' True)
      = Response ?r2 \<and> \<not> ok ?r2" by (rule h) simp
  have h3: "fetch (answering_env ?r3) (controlLoad_request (answering_env ?r3) ''pump'' True)
      = Response ?r3 \<and> \<not> ok ?r3" by (rule h) simp
  have h4: "fetch refusing_env (controlLoad_request refusing_env ''pump'' True) = Response ?r4
      \<and> \<not> ok ?r4"
    by (simp add: refusing_env_def refusing_backend_def)
  have b1: "body ?r1 = None" by simp
  have b2: "body ?r2 = Some JNull \<and> (JNull = JNull \<or> JNull = Undefined)" by simp
  have b3: "body ?r3 = Some (Obj []) \<and> get_prop (Obj []) ''detail'' = Inr Undefined
      \<and> get_prop (Obj []) ''message'' = Inr Undefined" by simp
  have b4: "body ?r4 = Some (Obj [(''detail'', Str ''Pump locked: battery SOC below 20%'')])
      \<and> get_prop (Obj [(''detail'', Str ''Pump locked: battery SOC below 20%'')]) ''detail''
          = Inr (Str ''Pump locked: battery SOC below 20%'')
      \<and> get_prop (Obj [(''detail'', Str ''Pump locked: battery SOC below 20%'')]) ''message''
          = Inr Undefined" by simp
  have s: "True = (\<not> truthy_bool (Val False))" by simp
  from h1 b1 non_success_is_thrown [of "answering_env ?r1" "''pump''" True ?r1]
  have 1: "controlLoad (answering_env ?r1) ''pump'' True = Inl (Error (Str ''Bad Gateway''))"
    by simp
  from h2 b2 non_success_is_thrown [of "answering_env ?r2" "''pump''" True ?r2 JNull]
  have 2: "controlLoad (answering_env ?r2) ''pump'' True = Inl (Error (Str ''Request failed''))"
    by simp
  from h3 b3 non_success_is_thrown
    [of "answering_env ?r3" "''pump''" True ?r3 "Obj []" Undefined Undefined]
  have 3: "controlLoad (answering_env ?r3) ''pump'' True = Inl (Error (Str ''Request failed''))"
    by simp
  from h4 b4 s non_success_is_thrown
    [of refusing_env "''pump''" True ?r4
        "Obj [(''detail'', Str ''Pump locked: battery SOC below 20%'')]"
        "Str ''Pump locked: battery SOC below 20%''" Undefined "Val False"]
  have 4: "handleToggle controlLoad refusing_env ''pump'' (Val False)
     = [SetControlling ''pump'' True, Send (controlLoad_request refusing_env ''pump'' True),
        ToastError (Error (Str ''Pump locked: battery SOC below 20%'')) ''pump'',
        SetControlling ''pump'' False]
    \<and> handleToggle controlLoad_inline refusing_env ''pump'' (Val False)
     = [SetControlling ''pump'' True, Send (controlLoad_request refusing_env ''pump'' True),
        ToastError (Error (Str ''Pump locked: battery SOC below 20%'')) ''pump'',
        SetControlling ''pump'' False]"
    by auto
  from 1 2 3 4 show ?thesis by simp
qed

section \<open>The recent window\<close>

text \<open>
  C6, as the spec states it: for every history list the chart series is the last 50
  entries at most, in order. The whole history is labelled before the window is cut, and
  a timestamp that cannot be formatted makes the expression throw: on a history of 51
  entries whose first timestamp is no date, outside the window, no series is derived.
\<close>

theorem unparseable_timestamp_throws_counterexample:
  "chartData example_hhmm
     (Some ((load_response 50)\<lparr>history :=
        Val (reading_at ''not-a-date'' # replicate 50 (reading_at ''2026-02-13T10:30:00''))\<rparr>))
   = Inl RangeError"
proof -
  have "chart_point_of example_hhmm (reading_at ''not-a-date'') = Inl RangeError"
    by (simp add: chart_point_of_def reading_at_def example_hhmm_def)
  then show ?thesis by (simp add: chartData_def)
qed

text \<open>
  C6, amended: for every history list in which each timestamp is absent, empty or can be
  formatted, the chart series is made of the last 50 entries at most, in the order of the
  input, each with its time label, and its length is the smaller of the input's length
  and 50; an empty history, and no payload at all, give the empty series. If any entry
  of the history, inside the window or not, has a timestamp that cannot be formatted,
  the expression throws a \<^verbatim>\<open>RangeError\<close> and no series is derived.
\<close>

theorem chartData_last_50:
  "((\<forall>it \<in> set h. \<exists>t. time_label hhmm (timestamp it) = Inr t) \<longrightarrow>
      (\<exists>pts. chartData hhmm (Some (p\<lparr>history := Val h\<rparr>)) = Inr pts
         \<and> map item pts = drop (length h - 50) h
         \<and> length pts = min (length h) 50
         \<and> (\<forall>pt \<in> set pts. time_label hhmm (timestamp (item pt)) = Inr (time pt))))
   \<and> ((\<exists>it \<in> set h. time_label hhmm (timestamp it) = Inl RangeError) \<longrightarrow>
        chartData hhmm (Some (p\<lparr>history := Val h\<rparr>)) = Inl RangeError)
   \<and> chartData hhmm (Some (p\<lparr>history := Val []\<rparr>)) = Inr []
   \<and> chartData hhmm None = Inr []"
proof (intro conjI impI)
  assume ok: "\<forall>it \<in> set h. \<exists>t. time_label hhmm (timestamp it) = Inr t"
  let ?g = "\<lambda>it. projr (chart_point_of hhmm it)"
  from ok have each: "\<forall>it \<in> set h. \<exists>y. chart_point_of hhmm it = Inr y"
    by (auto simp: chart_point_of_def)
  then have m: "map_throwing (chart_point_of hhmm) h = Inr (map ?g h)"
    by (rule map_throwing_ok)
  have g_item: "\<And>it. it \<in> set h \<Longrightarrow> item (?g it) = it"
    using ok by (auto simp: chart_point_of_def)
  have g_time: "\<And>it. it \<in> set h \<Longrightarrow> time_label hhmm (timestamp it) = Inr (time (?g it))"
    using ok by (auto simp: chart_point_of_def)
  let ?pts = "drop (length h - 50) (map ?g h)"
  from m have c: "chartData hhmm (Some (p\<lparr>history := Val h\<rparr>)) = Inr ?pts"
    by (simp add: chartData_def slice_last_50)
  have items: "map item ?pts = drop (length h - 50) h"
  proof -
    have "map item (map ?g h) = h"
      using g_item by (simp add: map_idI)
    then show ?thesis by (simp add: drop_map [symmetric])
  qed
  have len: "length ?pts = min (length h) 50" by auto
  have labels: "\<forall>pt \<in> set ?pts. time_label hhmm (timestamp (item pt)) = Inr (time pt)"
  proof
    fix pt assume "pt \<in> set ?pts"
    then have "pt \<in> set (map ?g h)" by (rule in_set_dropD)
    then obtain it where "it \<in> set h" and "pt = ?g it" by auto
    with g_item g_time show "time_label hhmm (timestamp (item pt)) = Inr (time pt)"
      by simp
  qed
  from c items len labels
  show "\<exists>pts. chartData hhmm (Some (p\<lparr>history := Val h\<rparr>)) = Inr pts
         \<and> map item pts = drop (length h - 50) h
         \<and> length pts = min (length h) 50
         \<and> (\<forall>pt \<in> set pts. time_label hhmm (timestamp (item pt)) = Inr (time pt))"
    by blast
next
  assume "\<exists>it \<in> set h. time_label hhmm (timestamp it) = Inl RangeError"
  then obtain it where "it \<in> set h" and "time_label hhmm (timestamp it) = Inl RangeError"
    by blast
  then have bad: "it \<in> set h" "chart_point_of hhmm it = Inl RangeError"
    by (simp_all add: chart_point_of_def)
  from map_throwing_error [of it h "chart_point_of hhmm" RangeError, OF bad]
  obtain e where e: "map_throwing (chart_point_of hhmm) h = Inl e" ..
  from map_throwing_error_kind [of "chart_point_of hhmm" h e, OF e]
  obtain it' where "chart_point_of hhmm it' = Inl e" ..
  then have "e = RangeError" by (rule chart_point_of_error)
  with e show "chartData hhmm (Some (p\<lparr>history := Val h\<rparr>)) = Inl RangeError"
    by (simp add: chartData_def)
next
  show "chartData hhmm (Some (p\<lparr>history := Val []\<rparr>)) = Inr []"
    by (simp add: chartData_def slice_from_def)
next
  show "chartData hhmm None = Inr []" by (simp add: chartData_def)
qed

theorem chartData_last_50_witness:
  "chartData example_hhmm
     (Some ((load_response 50)\<lparr>history :=
        Val [reading_at ''2026-02-13T10:30:00'', reading_at ''2026-02-13T10:40:00'']\<rparr>))
     = Inr [\<lparr>item = reading_at ''2026-02-13T10:30:00'', time = ''10:30''\<rparr>,
            \<lparr>item = reading_at ''2026-02-13T10:40:00'', time = ''10:40''\<rparr>]
   \<and> chartData example_hhmm
     (Some ((load_response 50)\<lparr>history :=
        Val [reading_at ''2026-02-13T10:30:00'', reading_at ''not-a-date'']\<rparr>))
     = Inl RangeError"
proof -
  let ?a = "reading_at ''2026-02-13T10:30:00''" and ?b = "reading_at ''2026-02-13T10:40:00''"
  let ?bad = "reading_at ''not-a-date''"
  have la: "time_label example_hhmm (timestamp ?a) = Inr ''10:30''"
    by (simp add: reading_at_def example_hhmm_def)
  have lb: "time_label example_hhmm (timestamp ?b) = Inr ''10:40''"
    by (simp add: reading_at_def example_hhmm_def)
  have lbad: "time_label example_hhmm (timestamp ?bad) = Inl RangeError"
    by (simp add: reading_at_def example_hhmm_def)
  have ok: "\<forall>it \<in> set [?a, ?b]. \<exists>t. time_label example_hhmm (timestamp it) = Inr t"
    using la lb by simp
  have bad: "\<exists>it \<in> set [?a, ?bad]. time_label example_hhmm (timestamp it) = Inl RangeError"
    using lbad by simp
  from ok chartData_last_50 [of "[?a, ?b]" example_hhmm "load_response 50"]
  obtain pts where 1: "chartData example_hhmm
        (Some ((load_response 50)\<lparr>history := Val [?a, ?b]\<rparr>)) = Inr pts"
    and 2: "map item pts = drop (length [?a, ?b] - 50) [?a, ?b]"
    and 3: "\<forall>pt \<in> set pts. time_label example_hhmm (timestamp (item pt)) = Inr (time pt)"
    by blast
  from 2 obtain x y where pts: "pts = [x, y]" and x: "item x = ?a" and y: "item y = ?b"
    by auto
  from 3 pts x y la lb have "time x = ''10:30''" and "time y = ''10:40''" by auto
  with x y have "x = \<lparr>item = ?a, time = ''10:30''\<rparr>" and "y = \<lparr>item = ?b, time = ''10:40''\<rparr>"
    by auto
  with 1 pts have first: "chartData example_hhmm
        (Some ((load_response 50)\<lparr>history := Val [?a, ?b]\<rparr>))
      = Inr [\<lparr>item = ?a, time = ''10:30''\<rparr>, \<lparr>item = ?b, time = ''10:40''\<rparr>]"
    by simp
  from bad chartData_last_50 [of "[?a, ?bad]" example_hhmm "load_response 50"]
  have second: "chartData example_hhmm
        (Some ((load_response 50)\<lparr>history := Val [?a, ?bad]\<rparr>)) = Inl RangeError"
    by blast
  from first second show ?thesis by simp
qed

section \<open>The forecast\<close>

text \<open>
  C7: on the history of 100 W at \<open>t0\<close>, 120 W one hour later and 140 W two hours later,
  the linear forecast three hours after \<open>t0\<close> is exactly 160 W; and a projection below
  zero is forecast as 0, so no forecast is negative.
\<close>

theorem linear_forecast_exact_and_clamped:
  "linear_forecast [(t0, 100), (t0 + 3600, 120), (t0 + 7200, 140)] (t0 + 10800) = Some 160
   \<and> (projection hist t = Some r \<and> r < 0 \<longrightarrow> linear_forecast hist t = Some 0)
   \<and> (linear_forecast hist t = Some y \<longrightarrow> 0 \<le> y)"
  by (auto simp: linear_forecast_def projection_def elapsed_def ols_fit_def Let_def)

theorem linear_forecast_exact_and_clamped_witness:
  "projection [(0, 100), (3600, 40)] 10800 = Some (- 80)
   \<and> linear_forecast [(0, 100), (3600, 40)] 10800 = Some 0
   \<and> linear_forecast [(0, 100), (3600, 120), (7200, 140)] 10800 = Some 160
   \<and> (0::rat) \<le> 160"
proof -
  have h: "projection [(0, 100), (3600, 40)] 10800 = Some (- 80) \<and> (- 80 :: rat) < 0"
    by (simp add: projection_def elapsed_def ols_fit_def Let_def)
  from h linear_forecast_exact_and_clamped [of 0 "[(0, 100), (3600, 40)]" 10800 "- 80"]
  have 1: "linear_forecast [(0, 100), (3600, 40)] 10800 = Some 0" by blast
  from linear_forecast_exact_and_clamped
    [of 0 "[(0, 100), (3600, 120), (7200, 140)]" 10800 _ 160]
  have 2: "linear_forecast [(0, 100), (3600, 120), (7200, 140)] 10800 = Some 160
     \<and> (0::rat) \<le> 160" by simp
  from h 1 2 show ?thesis by simp
qed

section \<open>Offline by default\<close>



end
